theory Spec2Isabelle
  imports Main
begin

section \<open>The data handed to the Legal component\<close>

text \<open>
  \<^verbatim>\<open>src/components/Legal.tsx\<close> reads two things of a \<^verbatim>\<open>LegalNotice\<close> (a type
  generated by the content pipeline): its \<^verbatim>\<open>slug\<close>, a string, and \<^verbatim>\<open>body.code\<close>, the
  compiled MDX, also a string. The records below hold the fields the component reads.
\<close>

record MDX =
  code :: string

record LegalNotice =
  slug :: string
  body :: MDX

record LegalProps =
  legalTexts :: "LegalNotice list"

text \<open>
  \<^verbatim>\<open>type LegalLanguages = 'de' | 'en'\<close> is a union of string literals: at run time a
  language is a string, and the type only names the two values written in the file.
\<close>

type_synonym LegalLanguages = string

definition is_LegalLanguages :: "string \<Rightarrow> bool" where
  "is_LegalLanguages l = (l = ''de'' \<or> l = ''en'')"

section \<open>The rendered tree\<close>

text \<open>
  A click handler \<^verbatim>\<open>() => setLanguage(l)\<close> is kept as the update it requests. An
  element is a fragment, a \<^verbatim>\<open>div\<close> with its class name, a \<^verbatim>\<open>button\<close> with its handler,
  class name and label, or the MDX renderer with its \<^verbatim>\<open>code\<close> property.
\<close>

datatype action = SetLanguage LegalLanguages

datatype element =
    Fragment "element list"
  | Div string "element list"
  | Button action string string
  | MDXLayoutRenderer string

section \<open>The component\<close>

text \<open>\<^verbatim>\<open>legalTexts.find((text) => text.slug === language)\<close>; \<open>None\<close> is \<^verbatim>\<open>undefined\<close>.\<close>

definition legalText :: "LegalNotice list \<Rightarrow> LegalLanguages \<Rightarrow> LegalNotice option" where
  "legalText texts language = find (\<lambda>text. slug text = language) texts"

text \<open>\<^verbatim>\<open>language === lang ? 'text-primary-500' : ''\<close>\<close>

definition conditionalButtonStyles :: "LegalLanguages \<Rightarrow> LegalLanguages \<Rightarrow> string" where
  "conditionalButtonStyles language lang =
     (if language = lang then ''text-primary-500'' else '''')"

text \<open>
  \<^verbatim>\<open>legalText?.body.code\<close>: the optional chain gives \<^verbatim>\<open>undefined\<close> for an undefined
  \<^verbatim>\<open>legalText\<close> and reads the field otherwise.
\<close>

definition optional_body_code :: "LegalNotice option \<Rightarrow> string option" where
  "optional_body_code t = (case t of None \<Rightarrow> None | Some d \<Rightarrow> Some (code (body d)))"

text \<open>
  \<^verbatim>\<open>x || ''\<close> on a string or \<^verbatim>\<open>undefined\<close>: the left operand when it is truthy (a
  non-empty string), the right operand otherwise.
\<close>

definition or_else :: "string option \<Rightarrow> string \<Rightarrow> string" where
  "or_else x d = (case x of None \<Rightarrow> d | Some s \<Rightarrow> (if s = [] then d else s))"

text \<open>The body of \<^verbatim>\<open>Legal\<close> after the \<^verbatim>\<open>useState\<close> call, at the current \<^verbatim>\<open>language\<close>.\<close>

definition Legal :: "LegalProps \<Rightarrow> LegalLanguages \<Rightarrow> element" where
  "Legal p language =
     Fragment
      [Div ''mb-8 flex''
        [Button (SetLanguage ''de'')
           (''mr-4 text-xl transition-all hover:text-primary-500 ''
              @ conditionalButtonStyles language ''de'')
           ''DE'',
         Button (SetLanguage ''en'')
           (''text-xl transition-all hover:text-primary-500 ''
              @ conditionalButtonStyles language ''en'')
           ''EN''],
       Div ''prose dark:prose-invert''
        [MDXLayoutRenderer
           (or_else (optional_body_code (legalText (legalTexts p) language)) '''')]]"

section \<open>One mounted instance\<close>

text \<open>
  An instance holds the properties it was given and the one \<^verbatim>\<open>useState\<close> cell.
  \<^verbatim>\<open>useState<LegalLanguages>('en')\<close> starts the cell at \<^verbatim>\<open>'en'\<close>; \<^verbatim>\<open>setLanguage\<close>
  overwrites it.
\<close>

record mounted =
  props :: LegalProps
  language :: LegalLanguages

definition mount :: "LegalProps \<Rightarrow> mounted" where
  "mount p = \<lparr>props = p, language = ''en''\<rparr>"

definition setLanguage :: "LegalLanguages \<Rightarrow> mounted \<Rightarrow> mounted" where
  "setLanguage l i = i\<lparr>language := l\<rparr>"

definition render :: "mounted \<Rightarrow> element" where
  "render i = Legal (props i) (language i)"

definition resolveActiveDocument :: "mounted \<Rightarrow> LegalNotice option" where
  "resolveActiveDocument i = legalText (legalTexts (props i)) (language i)"

fun perform :: "action \<Rightarrow> mounted \<Rightarrow> mounted" where
  "perform (SetLanguage l) i = setLanguage l i"

section \<open>Reading a rendered tree\<close>

text \<open>The buttons of a tree in document order, and the properties given to the MDX renderer.\<close>

fun buttons :: "element \<Rightarrow> (action \<times> string \<times> string) list" where
  "buttons (Fragment es) = concat (map buttons es)"
| "buttons (Div c es) = concat (map buttons es)"
| "buttons (Button a c l) = [(a, c, l)]"
| "buttons (MDXLayoutRenderer s) = []"

fun renderer_codes :: "element \<Rightarrow> string list" where
  "renderer_codes (Fragment es) = concat (map renderer_codes es)"
| "renderer_codes (Div c es) = concat (map renderer_codes es)"
| "renderer_codes (Button a c l) = []"
| "renderer_codes (MDXLayoutRenderer s) = [s]"

text \<open>A class name is a list of classes separated by spaces.\<close>

fun split_on :: "char \<Rightarrow> string \<Rightarrow> string list" where
  "split_on c [] = [[]]"
| "split_on c (x # xs) =
     (if x = c then [] # split_on c xs
      else (case split_on c xs of [] \<Rightarrow> [[x]] | w # ws \<Rightarrow> (x # w) # ws))"

definition class_tokens :: "string \<Rightarrow> string list" where
  "class_tokens s = filter (\<lambda>w. w \<noteq> []) (split_on (CHR '' '') s)"

text \<open>
  Each language control of a tree: the language its handler selects, and whether its
  class name holds the class \<^verbatim>\<open>text-primary-500\<close> that marks the active one.
\<close>

fun selects :: "action \<Rightarrow> LegalLanguages" where
  "selects (SetLanguage l) = l"

definition controls :: "element \<Rightarrow> (LegalLanguages \<times> bool) list" where
  "controls e =
     map (\<lambda>(a, c, l). (selects a, ''text-primary-500'' \<in> set (class_tokens c))) (buttons e)"

text \<open>
  The states a user can reach: the mounted instance, and from a reachable instance
  whatever a handler of one of its rendered buttons requests.
\<close>

inductive reachable :: "LegalProps \<Rightarrow> mounted \<Rightarrow> bool" for p :: LegalProps where
  reachable_mount: "reachable p (mount p)"
| reachable_click:
    "reachable p i \<Longrightarrow> (a, c, l) \<in> set (buttons (render i)) \<Longrightarrow> reachable p (perform a i)"

section \<open>The operations of the selector, one at a time\<close>

text \<open>
  Selecting a language writes the state cell; resolving and rendering read the instance
  and hand back a value. Each operation returns the instance it leaves behind.
\<close>

datatype operation = SelectLanguage LegalLanguages | Resolve | Render

datatype observation =
    Nothing
  | Resolved "LegalNotice option"
  | Rendered element

fun step :: "operation \<Rightarrow> mounted \<Rightarrow> mounted \<times> observation" where
  "step (SelectLanguage c) i = (setLanguage c i, Nothing)"
| "step Resolve i = (i, Resolved (resolveActiveDocument i))"
| "step Render i = (i, Rendered (render i))"

fun run :: "operation list \<Rightarrow> mounted \<Rightarrow> mounted" where
  "run [] i = i"
| "run (x # xs) i = run xs (fst (step x i))"

section \<open>The content renderer\<close>





section \<open>The two variants of the legal-notice page\<close>

text \<open>
  \<^verbatim>\<open>src/app/legal-notice/page.tsx\<close> returns \<^verbatim>\<open><Legal legalTexts={allLegalNotices} />\<close>.
  The other variant first computes \<^verbatim>\<open>allLegalNotices.find((p) => p.slug === 'de')\<close> and
  the same for \<^verbatim>\<open>'en'\<close>, then returns the same element. A page is modelled by the
  properties of the \<^verbatim>\<open>Legal\<close> element it returns and by the title it gives to
  \<^verbatim>\<open>genPageMetadata\<close>.
\<close>

definition Page :: "LegalNotice list \<Rightarrow> LegalProps" where
  "Page allLegalNotices = \<lparr>legalTexts = allLegalNotices\<rparr>"

definition Page_metadata_title :: string where
  "Page_metadata_title = ''Legal Notice''"

definition Page_with_lookups :: "LegalNotice list \<Rightarrow> LegalProps" where
  "Page_with_lookups allLegalNotices =
     (let legalNoticeDE = find (\<lambda>p. slug p = ''de'') allLegalNotices;
          legalNoticeEN = find (\<lambda>p. slug p = ''en'') allLegalNotices
      in \<lparr>legalTexts = allLegalNotices\<rparr>)"

definition Page_with_lookups_metadata_title :: string where
  "Page_with_lookups_metadata_title = ''Legal Notice''"

section \<open>Auxiliary facts\<close>

lemma renderer_codes_Legal:
  "renderer_codes (Legal p l) = [or_else (optional_body_code (legalText (legalTexts p) l)) '''']"
  by (simp add: Legal_def)

lemma buttons_Legal:
  "buttons (Legal p l) =
     [(SetLanguage ''de'',
       ''mr-4 text-xl transition-all hover:text-primary-500 '' @ conditionalButtonStyles l ''de'',
       ''DE''),
      (SetLanguage ''en'',
       ''text-xl transition-all hover:text-primary-500 '' @ conditionalButtonStyles l ''en'',
       ''EN'')]"
  by (simp add: Legal_def)

lemma or_else_empty: "or_else x '''' = (case x of None \<Rightarrow> '''' | Some s \<Rightarrow> s)"
  by (simp add: or_else_def split: option.splits)


lemma legalText_first:
  "k < length texts \<Longrightarrow> slug (texts ! k) = l \<Longrightarrow> \<forall>j<k. slug (texts ! j) \<noteq> l \<Longrightarrow>
     legalText texts l = Some (texts ! k)"
  by (auto simp: legalText_def find_Some_iff)

lemma legalText_present:
  assumes "d \<in> set texts" and "slug d = l"
  shows "\<exists>k<length texts. legalText texts l = Some (texts ! k) \<and> slug (texts ! k) = l \<and>
           (\<forall>j<k. slug (texts ! j) \<noteq> l)"
proof -
  from assms have "find (\<lambda>t. slug t = l) texts \<noteq> None"
    by (auto simp: find_None_iff)
  then obtain e where "find (\<lambda>t. slug t = l) texts = Some e"
    by blast
  then show ?thesis
    unfolding legalText_def find_Some_iff by auto
qed

lemma marked_de:
  "''text-primary-500'' \<in> set (class_tokens
      (''mr-4 text-xl transition-all hover:text-primary-500 '' @ conditionalButtonStyles l ''de''))
    \<longleftrightarrow> l = ''de''"
  by (simp add: conditionalButtonStyles_def class_tokens_def)

lemma marked_en:
  "''text-primary-500'' \<in> set (class_tokens
      (''text-xl transition-all hover:text-primary-500 '' @ conditionalButtonStyles l ''en''))
    \<longleftrightarrow> l = ''en''"
  by (simp add: conditionalButtonStyles_def class_tokens_def)

lemma step_props: "props (fst (step x i)) = props i"
  by (cases x) (simp_all add: setLanguage_def)

section \<open>Resolution\<close>

text \<open>
  C1. For every document set and every current language, the lookup returns the first
  entry whose \<^verbatim>\<open>slug\<close> equals the language: the entry at the least index that matches.
  It returns \<^verbatim>\<open>undefined\<close> when no entry matches.
\<close>

theorem legalText_first_match:
  "((\<forall>t \<in> set texts. slug t \<noteq> l) \<longrightarrow> legalText texts l = None) \<and>
   (k < length texts \<and> slug (texts ! k) = l \<and> (\<forall>j<k. slug (texts ! j) \<noteq> l)
      \<longrightarrow> legalText texts l = Some (texts ! k))"
proof (intro conjI impI)
  assume "\<forall>t \<in> set texts. slug t \<noteq> l"
  then show "legalText texts l = None"
    by (simp add: legalText_def find_None_iff)
next
  assume "k < length texts \<and> slug (texts ! k) = l \<and> (\<forall>j<k. slug (texts ! j) \<noteq> l)"
  then show "legalText texts l = Some (texts ! k)"
    by (simp add: legalText_first)
qed

theorem legalText_first_match_witness:
  "legalText
     [\<lparr>slug = ''en'', body = \<lparr>code = ''Hello''\<rparr>\<rparr>, \<lparr>slug = ''de'', body = \<lparr>code = ''Hallo''\<rparr>\<rparr>,
      \<lparr>slug = ''de'', body = \<lparr>code = ''Servus''\<rparr>\<rparr>] ''de''
     = Some \<lparr>slug = ''de'', body = \<lparr>code = ''Hallo''\<rparr>\<rparr> \<and>
   legalText
     [\<lparr>slug = ''en'', body = \<lparr>code = ''Hello''\<rparr>\<rparr>, \<lparr>slug = ''de'', body = \<lparr>code = ''Hallo''\<rparr>\<rparr>,
      \<lparr>slug = ''de'', body = \<lparr>code = ''Servus''\<rparr>\<rparr>] ''fr''
     = None"
  using
    legalText_first_match
      [of "[\<lparr>slug = ''en'', body = \<lparr>code = ''Hello''\<rparr>\<rparr>, \<lparr>slug = ''de'', body = \<lparr>code = ''Hallo''\<rparr>\<rparr>,
            \<lparr>slug = ''de'', body = \<lparr>code = ''Servus''\<rparr>\<rparr>]" "''de''" 1]
    legalText_first_match
      [of "[\<lparr>slug = ''en'', body = \<lparr>code = ''Hello''\<rparr>\<rparr>, \<lparr>slug = ''de'', body = \<lparr>code = ''Hallo''\<rparr>\<rparr>,
            \<lparr>slug = ''de'', body = \<lparr>code = ''Servus''\<rparr>\<rparr>]" "''fr''" 0]
  by simp



text \<open>
  C3, as amended. For every document set that holds a document \<open>d\<close> whose language code
  is \<^verbatim>\<open>en\<close>, resolving in the initial state returns the first document of the set whose
  code is \<^verbatim>\<open>en\<close>; it is \<open>d\<close> whenever no other document of the set has the code
  \<^verbatim>\<open>en\<close>.
\<close>

theorem initial_resolves_first_en:
  assumes "d \<in> set texts" and "slug d = ''en''"
  shows "(\<exists>k<length texts.
            resolveActiveDocument (mount \<lparr>legalTexts = texts\<rparr>) = Some (texts ! k) \<and>
            slug (texts ! k) = ''en'' \<and> (\<forall>j<k. slug (texts ! j) \<noteq> ''en'')) \<and>
         ((\<forall>t \<in> set texts. slug t = ''en'' \<longrightarrow> t = d) \<longrightarrow>
            resolveActiveDocument (mount \<lparr>legalTexts = texts\<rparr>) = Some d)"
proof -
  have res: "resolveActiveDocument (mount \<lparr>legalTexts = texts\<rparr>) = legalText texts ''en''"
    by (simp add: resolveActiveDocument_def mount_def)
  from legalText_present [OF assms] obtain k where
    k: "k < length texts" "legalText texts ''en'' = Some (texts ! k)"
       "slug (texts ! k) = ''en''" "\<forall>j<k. slug (texts ! j) \<noteq> ''en''"
    by blast
  have first: "\<exists>k<length texts.
      resolveActiveDocument (mount \<lparr>legalTexts = texts\<rparr>) = Some (texts ! k) \<and>
      slug (texts ! k) = ''en'' \<and> (\<forall>j<k. slug (texts ! j) \<noteq> ''en'')"
    using k res by auto
  have only: "resolveActiveDocument (mount \<lparr>legalTexts = texts\<rparr>) = Some d"
    if "\<forall>t \<in> set texts. slug t = ''en'' \<longrightarrow> t = d"
  proof -
    from k(1) have "texts ! k \<in> set texts" by simp
    with that k(3) have "texts ! k = d" by blast
    with k(2) res show ?thesis by simp
  qed
  from first only show ?thesis by blast
qed

theorem initial_resolves_first_en_witness:
  "resolveActiveDocument (mount \<lparr>legalTexts =
      [\<lparr>slug = ''de'', body = \<lparr>code = ''Hallo''\<rparr>\<rparr>, \<lparr>slug = ''en'', body = \<lparr>code = ''Hello''\<rparr>\<rparr>]\<rparr>)
    = Some \<lparr>slug = ''en'', body = \<lparr>code = ''Hello''\<rparr>\<rparr>"
proof -
  have mem: "\<lparr>slug = ''en'', body = \<lparr>code = ''Hello''\<rparr>\<rparr>
      \<in> set [\<lparr>slug = ''de'', body = \<lparr>code = ''Hallo''\<rparr>\<rparr>, \<lparr>slug = ''en'', body = \<lparr>code = ''Hello''\<rparr>\<rparr>]"
    by simp
  have en: "slug \<lparr>slug = ''en'', body = \<lparr>code = ''Hello''\<rparr>\<rparr> = ''en''"
    by simp
  have only: "\<forall>t \<in> set [\<lparr>slug = ''de'', body = \<lparr>code = ''Hallo''\<rparr>\<rparr>,
                          \<lparr>slug = ''en'', body = \<lparr>code = ''Hello''\<rparr>\<rparr>].
      slug t = ''en'' \<longrightarrow> t = \<lparr>slug = ''en'', body = \<lparr>code = ''Hello''\<rparr>\<rparr>"
    by simp
  from initial_resolves_first_en [OF mem en] only show ?thesis
    by blast
qed

text \<open>
  The claim as written fails where two documents carry the code \<^verbatim>\<open>en\<close>: the set
  holds the second one, and the lookup returns the first.
\<close>

theorem initial_resolves_that_en_counterexample:
  "\<lparr>slug = ''en'', body = \<lparr>code = ''B''\<rparr>\<rparr>
     \<in> set [\<lparr>slug = ''en'', body = \<lparr>code = ''A''\<rparr>\<rparr>, \<lparr>slug = ''en'', body = \<lparr>code = ''B''\<rparr>\<rparr>] \<and>
   slug \<lparr>slug = ''en'', body = \<lparr>code = ''B''\<rparr>\<rparr> = ''en'' \<and>
   resolveActiveDocument (mount \<lparr>legalTexts =
      [\<lparr>slug = ''en'', body = \<lparr>code = ''A''\<rparr>\<rparr>, \<lparr>slug = ''en'', body = \<lparr>code = ''B''\<rparr>\<rparr>]\<rparr>)
     = Some \<lparr>slug = ''en'', body = \<lparr>code = ''A''\<rparr>\<rparr> \<and>
   resolveActiveDocument (mount \<lparr>legalTexts =
      [\<lparr>slug = ''en'', body = \<lparr>code = ''A''\<rparr>\<rparr>, \<lparr>slug = ''en'', body = \<lparr>code = ''B''\<rparr>\<rparr>]\<rparr>)
     \<noteq> Some \<lparr>slug = ''en'', body = \<lparr>code = ''B''\<rparr>\<rparr>"
  by (simp add: resolveActiveDocument_def mount_def legalText_def)

text \<open>
  C4. From the initial state, selecting \<^verbatim>\<open>de\<close> and then \<^verbatim>\<open>en\<close> gives back the document
  resolved at the start, and the same rendered tree.
\<close>

theorem select_de_en_round_trip:
  "resolveActiveDocument (setLanguage ''en'' (setLanguage ''de'' (mount p)))
     = resolveActiveDocument (mount p) \<and>
   render (setLanguage ''en'' (setLanguage ''de'' (mount p))) = render (mount p)"
  by (simp add: resolveActiveDocument_def render_def setLanguage_def mount_def)

section \<open>Rendering\<close>

text \<open>
  C6, as amended. For every document set and every selection state the rendered tree
  has exactly two language controls, one selecting \<^verbatim>\<open>de\<close> and one selecting \<^verbatim>\<open>en\<close>,
  whatever language codes the document set holds; a control carries the class
  \<^verbatim>\<open>text-primary-500\<close> exactly when its language is the current one.
\<close>

theorem controls_de_en_marked_iff_current:
  "controls (render i) = [(''de'', language i = ''de''), (''en'', language i = ''en'')]"
  unfolding controls_def render_def buttons_Legal
  by (simp only: list.map prod.case selects.simps marked_de marked_en)

text \<open>
  The claim as written fails for a document set with the one code \<^verbatim>\<open>en\<close>: the tree
  still has the two controls, so the controls are not one per language code of the set.
\<close>

theorem controls_per_document_language_counterexample:
  "map fst (controls (render (mount
      \<lparr>legalTexts = [\<lparr>slug = ''en'', body = \<lparr>code = ''Hello''\<rparr>\<rparr>]\<rparr>))) = [''de'', ''en''] \<and>
   remdups (map slug [\<lparr>slug = ''en'', body = \<lparr>code = ''Hello''\<rparr>\<rparr>]) = [''en''] \<and>
   set (map fst (controls (render (mount
      \<lparr>legalTexts = [\<lparr>slug = ''en'', body = \<lparr>code = ''Hello''\<rparr>\<rparr>]\<rparr>))))
     \<noteq> set (map slug [\<lparr>slug = ''en'', body = \<lparr>code = ''Hello''\<rparr>\<rparr>])"
proof -
  have c: "map fst (controls (render (mount
      \<lparr>legalTexts = [\<lparr>slug = ''en'', body = \<lparr>code = ''Hello''\<rparr>\<rparr>]\<rparr>))) = [''de'', ''en'']"
    unfolding controls_def render_def buttons_Legal
    by (simp only: list.map prod.case selects.simps fst_conv)
  show ?thesis
    unfolding c by auto
qed

section \<open>Frame: the document set\<close>

text \<open>
  C7. No operation changes the document set: after any sequence of selections,
  resolutions and renders, the instance holds the properties it was given, so the array
  and every document in it are as they were.
\<close>

theorem run_keeps_document_set:
  "props (run xs i) = props i \<and> legalTexts (props (run xs i)) = legalTexts (props i)"
proof -
  have "props (run xs i) = props i"
  proof (induction xs arbitrary: i)
    case Nil
    show ?case by simp
  next
    case (Cons x xs)
    have "props (run (x # xs) i) = props (fst (step x i))"
      using Cons.IH [of "fst (step x i)"] by simp
    then show ?case by (simp only: step_props)
  qed
  then show ?thesis by simp
qed

section \<open>The page variants\<close>

text \<open>
  C8. The variant that computes the two lookups does not use them: it hands the whole
  collection to \<^verbatim>\<open>Legal\<close>, as the other variant does, under the same title. At every
  language both pages render the same tree.
\<close>

theorem page_variants_equivalent:
  "Page_with_lookups allLegalNotices = Page allLegalNotices \<and>
   legalTexts (Page_with_lookups allLegalNotices) = allLegalNotices \<and>
   Page_with_lookups_metadata_title = Page_metadata_title \<and>
   Legal (Page_with_lookups allLegalNotices) l = Legal (Page allLegalNotices) l \<and>
   render (mount (Page_with_lookups allLegalNotices)) = render (mount (Page allLegalNotices))"
  by (simp add: Page_with_lookups_def Page_def Page_with_lookups_metadata_title_def
      Page_metadata_title_def)

section \<open>The selection state\<close>

text \<open>
  C9. The current language of every state reachable through the rendered controls is
  \<^verbatim>\<open>de\<close> or \<^verbatim>\<open>en\<close>: it starts at \<^verbatim>\<open>en\<close>, and each control's handler sets it to
  \<^verbatim>\<open>de\<close> or to \<^verbatim>\<open>en\<close>.
\<close>

theorem reachable_language_de_or_en:
  "reachable p i \<Longrightarrow> is_LegalLanguages (language i)"
proof (induction rule: reachable.induct)
  case reachable_mount
  show ?case by (simp add: mount_def is_LegalLanguages_def)
next
  case (reachable_click i a c l)
  from reachable_click.hyps(2) have "a = SetLanguage ''de'' \<or> a = SetLanguage ''en''"
    by (auto simp: render_def buttons_Legal)
  then show ?case by (auto simp: setLanguage_def is_LegalLanguages_def)
qed

theorem reachable_language_de_or_en_witness:
  "is_LegalLanguages (language (perform (SetLanguage ''de'') (mount \<lparr>legalTexts = []\<rparr>))) \<and>
   language (perform (SetLanguage ''de'') (mount \<lparr>legalTexts = []\<rparr>)) = ''de''"
proof -
  have "(SetLanguage ''de'',
         ''mr-4 text-xl transition-all hover:text-primary-500 ''
           @ conditionalButtonStyles (language (mount \<lparr>legalTexts = []\<rparr>)) ''de'',
         ''DE'') \<in> set (buttons (render (mount \<lparr>legalTexts = []\<rparr>)))"
    by (simp add: render_def buttons_Legal)
  with reachable_mount
  have "reachable \<lparr>legalTexts = []\<rparr> (perform (SetLanguage ''de'') (mount \<lparr>legalTexts = []\<rparr>))"
    by (rule reachable_click)
  then have "is_LegalLanguages (language (perform (SetLanguage ''de'') (mount \<lparr>legalTexts = []\<rparr>)))"
    by (rule reachable_language_de_or_en)
  then show ?thesis by (simp add: setLanguage_def)
qed

section \<open>What the content renderer receives\<close>

text \<open>
  C10. For the empty document set and every selection state the lookup gives
  \<^verbatim>\<open>undefined\<close> and the renderer is handed the empty string. The same holds when the
  resolved document's body code is empty. In every state the renderer is handed one
  string: the body code of the resolved document, or the empty string when there is
  none.
\<close>

theorem renderer_receives_string:
  "(legalTexts (props i) = [] \<longrightarrow>
      resolveActiveDocument i = None \<and> renderer_codes (render i) = ['''']) \<and>
   (resolveActiveDocument i = Some d \<and> code (body d) = '''' \<longrightarrow>
      renderer_codes (render i) = ['''']) \<and>
   renderer_codes (render i) =
     [case resolveActiveDocument i of None \<Rightarrow> '''' | Some t \<Rightarrow> code (body t)]"
proof -
  have codes: "renderer_codes (render i) =
      [case resolveActiveDocument i of None \<Rightarrow> '''' | Some t \<Rightarrow> code (body t)]"
    by (simp add: render_def resolveActiveDocument_def renderer_codes_Legal or_else_empty
        optional_body_code_def split: option.splits)
  have empty: "resolveActiveDocument i = None" if "legalTexts (props i) = []"
    using that by (simp add: resolveActiveDocument_def legalText_def)
  from codes empty show ?thesis
    by (auto split: option.splits)
qed

theorem renderer_receives_string_witness:
  "resolveActiveDocument (setLanguage ''de'' (mount \<lparr>legalTexts = []\<rparr>)) = None \<and>
   renderer_codes (render (setLanguage ''de'' (mount \<lparr>legalTexts = []\<rparr>))) = [''''] \<and>
   renderer_codes (render (mount \<lparr>legalTexts = [\<lparr>slug = ''en'', body = \<lparr>code = ''''\<rparr>\<rparr>]\<rparr>)) = ['''']"
proof -
  have e: "legalTexts (props (setLanguage ''de'' (mount \<lparr>legalTexts = []\<rparr>))) = []"
    by (simp add: setLanguage_def mount_def)
  have r: "resolveActiveDocument (mount \<lparr>legalTexts = [\<lparr>slug = ''en'', body = \<lparr>code = ''''\<rparr>\<rparr>]\<rparr>)
             = Some \<lparr>slug = ''en'', body = \<lparr>code = ''''\<rparr>\<rparr> \<and>
           code (body \<lparr>slug = ''en'', body = \<lparr>code = ''''\<rparr>\<rparr>) = ''''"
    by (simp add: resolveActiveDocument_def mount_def legalText_def)
  from e renderer_receives_string [of "setLanguage ''de'' (mount \<lparr>legalTexts = []\<rparr>)"]
  have one: "resolveActiveDocument (setLanguage ''de'' (mount \<lparr>legalTexts = []\<rparr>)) = None \<and>
             renderer_codes (render (setLanguage ''de'' (mount \<lparr>legalTexts = []\<rparr>))) = ['''']"
    by blast
  from r renderer_receives_string
      [of "mount \<lparr>legalTexts = [\<lparr>slug = ''en'', body = \<lparr>code = ''''\<rparr>\<rparr>]\<rparr>"
          "\<lparr>slug = ''en'', body = \<lparr>code = ''''\<rparr>\<rparr>"]
  have two: "renderer_codes (render (mount \<lparr>legalTexts = [\<lparr>slug = ''en'', body = \<lparr>code = ''''\<rparr>\<rparr>]\<rparr>))
               = ['''']"
    by blast
  from one two show ?thesis by blast
qed

end
